theory Spec2Isabelle
  imports Complex_Main
begin

section \<open>Data model\<close>

text \<open>
  The mesh (\<open>sheet\<close>) holds three pandas tables: \<open>vert_df\<close>, \<open>edge_df\<close> and \<open>face_df\<close>
  (named \<open>jv_df\<close>, \<open>je_df\<close> and \<open>cell_df\<close> in \<open>sheet_vertex_model.py\<close>, which still uses
  the older names of the same tables). A table row is a map from column name to a number.
  Floating-point numbers are modelled as reals: rounding, \<open>inf\<close> and \<open>nan\<close> are outside
  the model. The row label of a table is the position of the row, which is what
  \<open>append(..., ignore_index=True)\<close> produces.

  An edge row has the three integer columns \<open>srce\<close>, \<open>trgt\<close> and \<open>face\<close>, kept as
  natural numbers, and every other column in \<open>ecols\<close>.
\<close>

datatype error =
  IndexError | KeyError | AttributeError | UnboundLocalError | ValueError | TypeError

type_synonym row = "string \<Rightarrow> real"

type_synonym vec3 = "real \<times> real \<times> real"

record edge_row =
  srce :: nat
  trgt :: nat
  face :: nat
  ecols :: row

record sheet =
  vert_df :: "row list"
  edge_df :: "edge_row list"
  face_df :: "row list"
  geometry :: string
  height_axis :: string
  ab :: "real \<times> real"
  nrj_norm_factor :: real
  grad_norm_factor :: real

text \<open>
  A call either raises, leaving the mesh as mutated so far (all tables are mutated in place),
  or returns a value together with the mesh.
\<close>

datatype 'a res = Raised error sheet | Returned 'a sheet

fun mesh :: "'a res \<Rightarrow> sheet" where
  "mesh (Raised err s) = s"
| "mesh (Returned x s) = s"

text \<open>\<open>sheet.coords\<close>: the position columns. The sources fix them to x, y, z
  (\<open>height_grad\<close> writes the columns \<open>'x'\<close>, \<open>'y'\<close>, \<open>'z'\<close>; \<open>np.cross\<close> works on
  3-vectors).\<close>

definition coords :: "string list" where
  "coords = [''x'', ''y'', ''z'']"

definition xyz :: "row \<Rightarrow> vec3" where
  "xyz r = (r ''x'', r ''y'', r ''z'')"


fun vadd :: "vec3 \<Rightarrow> vec3 \<Rightarrow> vec3" where
  "vadd (a, b, c) (a', b', c') = (a + a', b + b', c + c')"

fun vsub :: "vec3 \<Rightarrow> vec3 \<Rightarrow> vec3" where
  "vsub (a, b, c) (a', b', c') = (a - a', b - b', c - c')"

fun vscale :: "real \<Rightarrow> vec3 \<Rightarrow> vec3" where
  "vscale k (a, b, c) = (k * a, k * b, k * c)"

fun vmul :: "vec3 \<Rightarrow> vec3 \<Rightarrow> vec3" where
  "vmul (a, b, c) (a', b', c') = (a * a', b * b', c * c')"

fun cross :: "vec3 \<Rightarrow> vec3 \<Rightarrow> vec3" where
  "cross (a, b, c) (a', b', c') = (b * c' - c * b', c * a' - a * c', a * b' - b * a')"

fun vnorm :: "vec3 \<Rightarrow> real" where
  "vnorm (a, b, c) = sqrt (a * a + b * b + c * c)"

definition vsum :: "vec3 list \<Rightarrow> vec3" where
  "vsum vs = foldr vadd vs (0, 0, 0)"

subsection \<open>Boolean-mask selection\<close>

text \<open>\<open>df[mask].index\<close>: the labels of the rows that satisfy the mask, in stored order.\<close>

definition mask_index :: "('a \<Rightarrow> bool) \<Rightarrow> 'a list \<Rightarrow> nat list" where
  "mask_index P rows = filter (\<lambda>i. P (rows ! i)) [0..<length rows]"

text \<open>\<open>index[0]\<close>: the first label; IndexError on an empty selection.\<close>

definition index0 :: "nat list \<Rightarrow> error + nat" where
  "index0 labels = (case labels of [] \<Rightarrow> Inl IndexError | i # _ \<Rightarrow> Inr i)"

section \<open>Mesh Store operations used by the geometry and the model\<close>

text \<open>Modelled from the spec: the Mesh Store (the \<open>Sheet\<close> class with \<open>upcast_srce\<close>,
  \<open>upcast_trgt\<close>, \<open>upcast_face\<close> and \<open>sum_face\<close>) is not among the sources. The spec has
  upcast broadcast a per-vertex or per-face attribute onto every edge referencing it,
  downcast sum or average an edge-level quantity grouped by face or by vertex, and either
  fail fast on a missing id. \<open>verts_ok\<close> and \<open>faces_ok\<close> are the conditions under which
  the upcasts from vertices and from faces do not fail.\<close>

definition verts_ok :: "sheet \<Rightarrow> bool" where
  "verts_ok s = list_all (\<lambda>e. srce e < length (vert_df s) \<and> trgt e < length (vert_df s)) (edge_df s)"

definition faces_ok :: "sheet \<Rightarrow> bool" where
  "faces_ok s = list_all (\<lambda>e. face e < length (face_df s)) (edge_df s)"

text \<open>Modelled from the spec: \<open>sum_face\<close> and the grouped mean, one value per face. For a
  face without edges pandas leaves \<open>nan\<close> after index alignment; the model has the empty
  sum 0 and, for the mean, HOL's \<open>0 / 0 = 0\<close>.\<close>

definition face_edges :: "edge_row list \<Rightarrow> nat \<Rightarrow> edge_row list" where
  "face_edges es f = filter (\<lambda>e. face e = f) es"

definition sum_face :: "(edge_row \<Rightarrow> real) \<Rightarrow> edge_row list \<Rightarrow> nat \<Rightarrow> real" where
  "sum_face g es f = sum_list (map g (face_edges es f))"

definition mean_face :: "(edge_row \<Rightarrow> real) \<Rightarrow> edge_row list \<Rightarrow> nat \<Rightarrow> real" where
  "mean_face g es f = sum_face g es f / real (length (face_edges es f))"

text \<open>A column assignment on the face table, whose values are indexed by face id.\<close>

definition mapi :: "(nat \<Rightarrow> 'a \<Rightarrow> 'b) \<Rightarrow> 'a list \<Rightarrow> 'b list" where
  "mapi f xs = map (\<lambda>i. f i (xs ! i)) [0..<length xs]"

section \<open>Geometry: \<open>sheet_geometry.py\<close>\<close>

text \<open>\<open>sheet.dcoords\<close> are the edge columns dx, dy, dz and \<open>sheet.ncoords\<close> the edge
  columns nx, ny, nz.\<close>

definition get_d :: "row \<Rightarrow> vec3" where
  "get_d r = (r ''dx'', r ''dy'', r ''dz'')"

definition set_d :: "row \<Rightarrow> vec3 \<Rightarrow> row" where
  "set_d r p = (case p of (a, b, c) \<Rightarrow> r(''dx'' := a, ''dy'' := b, ''dz'' := c))"

definition get_n :: "row \<Rightarrow> vec3" where
  "get_n r = (r ''nx'', r ''ny'', r ''nz'')"

definition set_n :: "row \<Rightarrow> vec3 \<Rightarrow> row" where
  "set_n r p = (case p of (a, b, c) \<Rightarrow> r(''nx'' := a, ''ny'' := b, ''nz'' := c))"

subsection \<open>The steps inherited from \<open>PlanarGeometry\<close>\<close>

text \<open>Modelled from the spec: \<open>PlanarGeometry\<close> (\<open>update_dcoords\<close>, \<open>update_length\<close>,
  \<open>update_centroid\<close>, \<open>update_perimeters\<close>, \<open>dist_to_point\<close>) is not among the sources.
  The spec names what each recomputes: the edge displacement vector (target position minus
  source position, upcast from the vertices), the edge length (its norm), the face centroid
  (the mean of the source-vertex positions over the face's edges, as for the per-face
  height), the face perimeter (the sum of the face's edge lengths), and the Euclidean
  distance to a point.\<close>

definition update_dcoords :: "sheet \<Rightarrow> unit res" where
  "update_dcoords s =
    (if \<not> verts_ok s then Raised KeyError s
     else Returned () (s\<lparr>edge_df := map (\<lambda>e. e\<lparr>ecols := set_d (ecols e)
            (vsub (xyz (vert_df s ! trgt e)) (xyz (vert_df s ! srce e)))\<rparr>) (edge_df s)\<rparr>))"

definition update_length :: "sheet \<Rightarrow> unit res" where
  "update_length s =
    Returned () (s\<lparr>edge_df := map (\<lambda>e. e\<lparr>ecols := (ecols e)(''length'' := vnorm (get_d (ecols e)))\<rparr>)
                    (edge_df s)\<rparr>)"

definition update_centroid :: "sheet \<Rightarrow> unit res" where
  "update_centroid s =
    (if \<not> verts_ok s then Raised KeyError s
     else Returned () (s\<lparr>face_df := mapi (\<lambda>f r. r
            (''x'' := mean_face (\<lambda>e. (vert_df s ! srce e) ''x'') (edge_df s) f,
             ''y'' := mean_face (\<lambda>e. (vert_df s ! srce e) ''y'') (edge_df s) f,
             ''z'' := mean_face (\<lambda>e. (vert_df s ! srce e) ''z'') (edge_df s) f)) (face_df s)\<rparr>))"

definition update_perimeters :: "sheet \<Rightarrow> unit res" where
  "update_perimeters s =
    Returned () (s\<lparr>face_df := mapi (\<lambda>f r. r
       (''perimeter'' := sum_face (\<lambda>e. ecols e ''length'') (edge_df s) f)) (face_df s)\<rparr>)"

definition dist_to_point :: "row \<Rightarrow> vec3 \<Rightarrow> string \<times> string \<times> string \<Rightarrow> real" where
  "dist_to_point r p cs =
    (case (p, cs) of ((a, b, c), (u, v, w)) \<Rightarrow> vnorm (r u - a, r v - b, r w - c))"

subsection \<open>\<open>SheetGeometry\<close>\<close>

text \<open>\<open>update_height\<close>, lines 97-133. \<open>u, v = (c for c in sheet.coords if c != w)\<close> raises
  ValueError unless exactly two coordinates differ from the height axis. A geometry setting
  that matches no branch leaves the column \<open>rho\<close> as it is. In rod mode the right-tip
  assignment comes last and wins for a vertex that carries both flags.\<close>

definition rho_of :: "sheet \<Rightarrow> row \<Rightarrow> real" where
  "rho_of s r =
    (let w = height_axis s; uv = filter (\<lambda>c. c \<noteq> w) coords; u = uv ! 0; v = uv ! 1 in
     if geometry s = ''cylindrical'' then sqrt ((r v)\<^sup>2 + (r u)\<^sup>2)
     else if geometry s = ''flat'' then r w
     else if geometry s = ''spherical'' then vnorm (xyz r)
     else if geometry s = ''rod'' then
       (let w0 = snd (ab s) - fst (ab s) in
        if r ''right_tip'' = 1 then dist_to_point r (0, 0, w0) (u, v, w)
        else if r ''left_tip'' = 1 then dist_to_point r (0, 0, - w0) (u, v, w)
        else vnorm (r u, r v, 0))
     else r ''rho'')"

definition update_height :: "sheet \<Rightarrow> unit res" where
  "update_height s =
    (if length (filter (\<lambda>c. c \<noteq> height_axis s) coords) \<noteq> 2 then Raised ValueError s
     else
       let vs1 = map (\<lambda>r. r(''rho'' := rho_of s r)) (vert_df s);
           vs2 = map (\<lambda>r. r(''height'' := r ''rho'' - r ''basal_shift'')) vs1;
           s2 = s\<lparr>vert_df := vs2\<rparr>
       in
       if \<not> verts_ok s2 then Raised KeyError s2
       else Returned () (s2\<lparr>face_df := mapi (\<lambda>f r. r
              (''height'' := mean_face (\<lambda>e. (vs2 ! srce e) ''height'') (edge_df s) f,
               ''rho'' := mean_face (\<lambda>e. (vs2 ! srce e) ''rho'') (edge_df s) f)) (face_df s)\<rparr>))"

text \<open>\<open>update_normals\<close>, lines 40-45.\<close>

definition update_normals :: "sheet \<Rightarrow> unit res" where
  "update_normals s =
    (if \<not> faces_ok s \<or> \<not> verts_ok s then Raised KeyError s
     else Returned () (s\<lparr>edge_df := map (\<lambda>e. e\<lparr>ecols := set_n (ecols e)
            (cross (vsub (xyz (vert_df s ! srce e)) (xyz (face_df s ! face e))) (get_d (ecols e)))\<rparr>)
            (edge_df s)\<rparr>))"

text \<open>\<open>update_areas\<close>, lines 52-55.\<close>

definition update_areas :: "sheet \<Rightarrow> unit res" where
  "update_areas s =
    (let es1 = map (\<lambda>e. e\<lparr>ecols := (ecols e)(''sub_area'' := vnorm (get_n (ecols e)) / 2)\<rparr>) (edge_df s)
     in Returned () (s\<lparr>edge_df := es1,
          face_df := mapi (\<lambda>f r. r(''area'' := sum_face (\<lambda>e. ecols e ''sub_area'') es1 f)) (face_df s)\<rparr>))"

text \<open>\<open>update_vol\<close>, lines 64-67.\<close>

definition update_vol :: "sheet \<Rightarrow> unit res" where
  "update_vol s =
    (if \<not> verts_ok s then Raised KeyError s
     else
       let es1 = map (\<lambda>e. e\<lparr>ecols := (ecols e)
                   (''sub_vol'' := (vert_df s ! srce e) ''height'' * ecols e ''sub_area'')\<rparr>) (edge_df s)
       in Returned () (s\<lparr>edge_df := es1,
            face_df := mapi (\<lambda>f r. r(''vol'' := sum_face (\<lambda>e. ecols e ''sub_vol'') es1 f)) (face_df s)\<rparr>))"

text \<open>A statement sequence: the next statement runs on the mesh the previous one left,
  unless that one raised.\<close>

fun and_then :: "unit res \<Rightarrow> (sheet \<Rightarrow> 'a res) \<Rightarrow> 'a res" where
  "and_then (Raised err s) f = Raised err s"
| "and_then (Returned u s) f = f s"

text \<open>\<open>update_all\<close>, lines 25-32.\<close>

definition update_all :: "sheet \<Rightarrow> unit res" where
  "update_all s =
    and_then (and_then (and_then (and_then (and_then (and_then (and_then
      (update_dcoords s) update_length) update_centroid) update_height)
      update_normals) update_areas) update_perimeters) update_vol"

text \<open>\<open>face_projected_pos\<close>, lines 210-225. \<open>np.linalg.svd\<close> and \<open>rotation_matrix\<close>
  (from \<open>.utils\<close>, not among the sources) are parameters: \<open>svd_vt\<close> is the third value
  that \<open>np.linalg.svd(rel_pos, full_matrices=False)\<close> returns, a 3 by 3 matrix for a face
  with at least three edges. A matrix is the triple of its rows, and row \<open>i\<close> of
  \<open>np.dot(rel_pos, rotation.T)\<close> is \<open>rotation\<close> applied to row \<open>i\<close> of \<open>rel_pos\<close>. The
  result is indexed by \<open>face_orbit\<close>, the source vertices of the face's edges.\<close>

type_synonym mat3 = "vec3 \<times> vec3 \<times> vec3"

fun dot :: "vec3 \<Rightarrow> vec3 \<Rightarrow> real" where
  "dot (a, b, c) (a', b', c') = a * a' + b * b' + c * c'"

fun mat_vec :: "mat3 \<Rightarrow> vec3 \<Rightarrow> vec3" where
  "mat_vec (r1, r2, r3) v = (dot r1 v, dot r2 v, dot r3 v)"

fun transpose3 :: "mat3 \<Rightarrow> mat3" where
  "transpose3 ((a, b, c), (d, e, f), (g, h, i)) = ((a, d, g), (b, e, h), (c, f, i))"

fun mat_mul :: "mat3 \<Rightarrow> mat3 \<Rightarrow> mat3" where
  "mat_mul (r1, r2, r3) m =
    (case transpose3 m of (c1, c2, c3) \<Rightarrow>
      ((dot r1 c1, dot r1 c2, dot r1 c3),
       (dot r2 c1, dot r2 c2, dot r2 c3),
       (dot r3 c1, dot r3 c2, dot r3 c3)))"

record numerics =
  svd_vt :: "vec3 list \<Rightarrow> mat3"
  rotation_matrix :: "real \<Rightarrow> vec3 \<Rightarrow> mat3"

definition face_projected_pos :: "numerics \<Rightarrow> sheet \<Rightarrow> nat \<Rightarrow> real \<Rightarrow> error + (nat \<times> vec3) list" where
  "face_projected_pos np s face0 psi =
    (let face_orbit = map srce (face_edges (edge_df s) face0) in
     if \<not> list_all (\<lambda>v. v < length (vert_df s)) face_orbit then Inl KeyError
     else if \<not> face0 < length (face_df s) then Inl KeyError
     else
       let rel_pos = map (\<lambda>v. vsub (xyz (vert_df s ! v)) (xyz (face_df s ! face0))) face_orbit;
           rotation = svd_vt np rel_pos;
           rotation' = (if psi \<noteq> 0 then mat_mul (rotation_matrix np psi (0, 0, 1)) rotation
                        else rotation)
       in Inr (zip face_orbit (map (mat_vec rotation') rel_pos)))"

text \<open>The \<open>geom\<close> argument of \<open>cell_division\<close> is a module or class whose attributes are
  looked up by name; a name it does not define raises AttributeError. \<open>SheetGeometry\<close>
  defines the methods of lines 12-225 and inherits the \<open>PlanarGeometry\<close> ones.\<close>

record geom_module =
  projections :: "string \<rightharpoonup> (sheet \<Rightarrow> nat \<Rightarrow> real \<Rightarrow> error + (nat \<times> vec3) list)"
  updates :: "string \<rightharpoonup> (sheet \<Rightarrow> unit res)"

definition SheetGeometry :: "numerics \<Rightarrow> geom_module" where
  "SheetGeometry np =
    \<lparr>projections = map_of [(''face_projected_pos'', face_projected_pos np)],
     updates = map_of
       [(''update_all'', update_all), (''update_normals'', update_normals),
        (''update_areas'', update_areas), (''update_vol'', update_vol),
        (''update_height'', update_height), (''update_dcoords'', update_dcoords),
        (''update_length'', update_length), (''update_centroid'', update_centroid),
        (''update_perimeters'', update_perimeters)]\<rparr>"

section \<open>Gradients: \<open>sheet_gradients.py\<close>\<close>

text \<open>\<open>height_grad\<close>, lines 13-26: one row per vertex. No branch assigns \<open>r_to_rho\<close> for
  any other geometry setting, and the \<open>return\<close> then raises UnboundLocalError. The
  setting \<open>height_axis\<close> is not read.\<close>

definition height_grad :: "sheet \<Rightarrow> error + vec3 list" where
  "height_grad s =
    (if geometry s = ''cylindrical'' then
       Inr (map (\<lambda>r. (r ''x'' / r ''rho'', r ''y'' / r ''rho'', 0)) (vert_df s))
     else if geometry s = ''flat'' then
       Inr (map (\<lambda>r. (0, 0, 1)) (vert_df s))
     else if geometry s = ''spherical'' then
       Inr (map (\<lambda>r. (r ''x'' / r ''rho'', r ''y'' / r ''rho'', r ''z'' / r ''rho'')) (vert_df s))
     else Inl UnboundLocalError)"

text \<open>\<open>area_grad\<close>, lines 31-48: two tables with one row per edge.\<close>

definition area_grad :: "sheet \<Rightarrow> error + (vec3 list \<times> vec3 list)" where
  "area_grad s =
    (if \<not> faces_ok s \<or> \<not> verts_ok s then Inl KeyError
     else
       let inv_area = (\<lambda>e. 1 / (4 * ecols e ''sub_area''));
           r_ak = (\<lambda>e. vsub (xyz (vert_df s ! srce e)) (xyz (face_df s ! face e)));
           r_aj = (\<lambda>e. vsub (xyz (vert_df s ! trgt e)) (xyz (face_df s ! face e)))
       in Inr (map (\<lambda>e. vscale (inv_area e) (cross (r_aj e) (get_n (ecols e)))) (edge_df s),
               map (\<lambda>e. vscale (inv_area e) (cross (get_n (ecols e)) (r_ak e))) (edge_df s)))"

text \<open>Modelled from the spec: \<open>length_grad\<close> is imported by \<open>sheet_vertex_model.py\<close>
  (line 11) from \<open>sheet_gradients\<close>, whose source does not define it. The spec calls it
  the per-edge length gradient, which \<open>compute_gradient\<close> adds at the source vertex and
  subtracts at the target vertex: the gradient of the edge length with respect to the
  source position, minus the displacement over the length. \<open>compute_gradient\<close> below
  takes the imported function as a parameter; this one is an argument for it.\<close>

definition length_grad :: "sheet \<Rightarrow> error + vec3 list" where
  "length_grad s =
    Inr (map (\<lambda>e. vscale (- 1 / ecols e ''length'') (get_d (ecols e))) (edge_df s))"

section \<open>Model: \<open>sheet_vertex_model.py\<close>\<close>

text \<open>A call \<open>f(x, ...)\<close> with \<open>nargs\<close> positional arguments of a function that is defined
  with the single parameter \<open>x\<close>, as \<open>height_grad(sheet)\<close> and \<open>area_grad(sheet)\<close> are:
  unless exactly one argument is passed, Python raises TypeError before the body runs.\<close>

definition call1 :: "('a \<Rightarrow> error + 'b) \<Rightarrow> 'a \<Rightarrow> nat \<Rightarrow> error + 'b" where
  "call1 f x nargs = (if nargs = 1 then f x else Inl TypeError)"

text \<open>What a call returns: a number, a pandas Series (label and value of each entry), a
  table of vectors, a tuple, or a generator of values.\<close>

datatype pyval =
    Float real
  | Series "(nat \<times> real) list"
  | Frame "vec3 list"
  | Tuple "pyval list"
  | Generator "pyval list"

text \<open>\<open>dimentionalize\<close>, lines 52-72, on the entries it reads and writes; \<open>**\<close> with the
  exponent 1.5 is the real power.\<close>

record mod_specs =
  contractility :: real
  vol_elasticity :: real
  prefered_height :: real
  prefered_area :: real
  prefered_vol :: real
  line_tension :: real
  spec_grad_norm_factor :: real
  spec_nrj_norm_factor :: real

definition dimentionalize :: "mod_specs \<Rightarrow> mod_specs" where
  "dimentionalize specs =
    (let Kv = vol_elasticity specs; A0 = prefered_area specs; h0 = prefered_height specs;
         gamma = contractility specs; lbda = line_tension specs
     in specs\<lparr>contractility := gamma * Kv * A0 * h0\<^sup>2,
              prefered_vol := A0 * h0,
              line_tension := lbda * Kv * A0 powr (3 / 2) * h0\<^sup>2,
              spec_grad_norm_factor := Kv * A0 powr (3 / 2) * h0\<^sup>2,
              spec_nrj_norm_factor := Kv * (A0 * h0)\<^sup>2\<rparr>)"

text \<open>\<open>elastic_force\<close> and \<open>elastic_energy\<close>, lines 75-94, with the default column
  names, which are the ones every call passes.\<close>

definition elastic_force :: "row \<Rightarrow> real" where
  "elastic_force r = r ''vol_elasticity'' * (r ''vol'' - r ''prefered_vol'')"

definition elastic_energy :: "row \<Rightarrow> real" where
  "elastic_energy r = 0.5 * r ''vol_elasticity'' * (r ''vol'' - r ''prefered_vol'')\<^sup>2"

text \<open>\<open>compute_energy\<close>, lines 107-120. \<open>upcast_cell\<close> fails on an edge whose face is
  missing. \<open>E_t\<close> has one entry per edge of a live face, \<open>E_v\<close> and \<open>E_c\<close> one entry per
  live face. With \<open>full_output\<close> the result is the generator expression of line 118 over
  the three Series, each divided entry by entry.\<close>

definition E_t :: "sheet \<Rightarrow> (nat \<times> real) list" where
  "E_t s = map (\<lambda>i. (i, ecols (edge_df s ! i) ''line_tension'' * ecols (edge_df s ! i) ''length'' / 2))
             (mask_index (\<lambda>e. (face_df s ! face e) ''is_alive'' = 1) (edge_df s))"

definition E_v :: "sheet \<Rightarrow> (nat \<times> real) list" where
  "E_v s = map (\<lambda>f. (f, elastic_energy (face_df s ! f)))
             (mask_index (\<lambda>r. r ''is_alive'' = 1) (face_df s))"

definition E_c :: "sheet \<Rightarrow> (nat \<times> real) list" where
  "E_c s = map (\<lambda>f. (f, 0.5 * (face_df s ! f) ''contractility'' * ((face_df s ! f) ''perimeter'')\<^sup>2))
             (mask_index (\<lambda>r. r ''is_alive'' = 1) (face_df s))"

definition series_sum :: "(nat \<times> real) list \<Rightarrow> real" where
  "series_sum xs = sum_list (map snd xs)"

definition series_div :: "(nat \<times> real) list \<Rightarrow> real \<Rightarrow> (nat \<times> real) list" where
  "series_div xs k = map (\<lambda>(i, x). (i, x / k)) xs"

definition series_add :: "(nat \<times> real) list \<Rightarrow> (nat \<times> real) list \<Rightarrow> (nat \<times> real) list" where
  "series_add xs ys = map (\<lambda>((i, x), (j, y)). (i, x + y)) (zip xs ys)"

definition compute_energy :: "sheet \<Rightarrow> bool \<Rightarrow> error + pyval" where
  "compute_energy s full_output =
    (if \<not> faces_ok s then Inl KeyError
     else if full_output then
       Inr (Generator (map (\<lambda>E. Series (series_div E (nrj_norm_factor s))) [E_t s, E_c s, E_v s]))
     else
       Inr (Float ((series_sum (E_t s) + series_sum (series_add (E_c s) (E_v s)))
                   / nrj_norm_factor s)))"

subsection \<open>The energy as the spec states it\<close>

text \<open>The spec's energy functional, restricted to live faces and to edges incident to live
  faces: the sum over those edges of line tension times length over two, and the sums over
  those faces of half the contractility times the squared perimeter and of half the volume
  elasticity times the squared difference of volume and preferred volume.\<close>

definition live_edge :: "sheet \<Rightarrow> edge_row \<Rightarrow> bool" where
  "live_edge s e = ((face_df s ! face e) ''is_alive'' = 1)"

definition live_face :: "row \<Rightarrow> bool" where
  "live_face r = (r ''is_alive'' = 1)"

definition spec_tension_energy :: "sheet \<Rightarrow> real" where
  "spec_tension_energy s =
    (\<Sum>e\<leftarrow>filter (live_edge s) (edge_df s). ecols e ''line_tension'' * ecols e ''length'' / 2)"

definition spec_contractile_energy :: "sheet \<Rightarrow> real" where
  "spec_contractile_energy s =
    (\<Sum>r\<leftarrow>filter live_face (face_df s). 0.5 * r ''contractility'' * (r ''perimeter'')\<^sup>2)"

definition spec_volume_energy :: "sheet \<Rightarrow> real" where
  "spec_volume_energy s =
    (\<Sum>r\<leftarrow>filter live_face (face_df s). 0.5 * r ''vol_elasticity'' * (r ''vol'' - r ''prefered_vol'')\<^sup>2)"

text \<open>Modelled from the spec: \<open>sum(level='srce')\<close> and \<open>sum(level='trgt')\<close> are the Mesh
  Store's grouped sums of a per-edge table by vertex; the result has one row per vertex.\<close>

definition sum_level :: "(edge_row \<Rightarrow> nat) \<Rightarrow> sheet \<Rightarrow> vec3 list \<Rightarrow> vec3 list" where
  "sum_level key s tbl =
    map (\<lambda>v. vsum (map (\<lambda>i. tbl ! i) (mask_index (\<lambda>e. key e = v) (edge_df s))))
        [0..<length (vert_df s)]"

text \<open>\<open>tension_grad\<close>, lines 151-156, and \<open>contractile_grad\<close>, lines 161-164.\<close>

definition tension_grad :: "sheet \<Rightarrow> vec3 list \<Rightarrow> error + vec3 list" where
  "tension_grad s grad_lij =
    (if \<not> faces_ok s then Inl KeyError
     else Inr (map (\<lambda>(e, g). vscale (ecols e ''line_tension'' * (face_df s ! face e) ''is_alive'') g)
                   (zip (edge_df s) grad_lij)))"

definition contractile_grad :: "sheet \<Rightarrow> vec3 list \<Rightarrow> error + vec3 list" where
  "contractile_grad s grad_lij =
    (if \<not> faces_ok s then Inl KeyError
     else Inr (map (\<lambda>(e, g). vscale ((face_df s ! face e) ''contractility''
                                    * (face_df s ! face e) ''perimeter''
                                    * (face_df s ! face e) ''is_alive'') g)
                   (zip (edge_df s) grad_lij)))"

text \<open>\<open>elastic_grad\<close>, lines 171-193. Line 187 is \<open>area_grad(sheet, coords)\<close> and line
  190 \<open>height_grad(sheet, coords)\<close>: two arguments each. \<open>_to_3d\<close> (from \<open>..utils.utils\<close>,
  not among the sources) is taken as the column repeated over the three coordinates, as an
  array, so that the products of lines 189-191 are row by row in stored order; the product
  of the per-edge \<open>area\<close> with the per-vertex table of \<open>height_grad\<close> then needs as many
  vertices as edges.\<close>

definition elastic_grad :: "sheet \<Rightarrow> error + (vec3 list \<times> vec3 list)" where
  "elastic_grad s =
    (if \<not> faces_ok s then Inl KeyError
     else if \<not> verts_ok s then Inl KeyError
     else
       let kv_v0 = (\<lambda>e. elastic_force (face_df s ! face e) * (face_df s ! face e) ''is_alive'');
           je_h = (\<lambda>e. (vert_df s ! srce e) ''height'');
           area = (\<lambda>e. ecols e ''sub_area'')
       in
       case call1 area_grad s 2 of
         Inl err \<Rightarrow> Inl err
       | Inr (grad_a_srce, grad_a_trgt) \<Rightarrow>
         (case call1 height_grad s 2 of
            Inl err \<Rightarrow> Inl err
          | Inr h_grad \<Rightarrow>
            if length h_grad \<noteq> length (edge_df s) then Inl ValueError
            else
              Inr (map (\<lambda>(e, ga, hg). vscale (kv_v0 e) (vadd (vscale (je_h e) ga) (vscale (area e) hg)))
                       (zip (edge_df s) (zip grad_a_srce h_grad)),
                   map (\<lambda>(e, ga). vscale (kv_v0 e) (vscale (je_h e) ga))
                       (zip (edge_df s) grad_a_trgt))))"

text \<open>Line 141-143: the per-vertex sum \<open>grad_i\<close> of the per-edge contributions.\<close>

definition grad_i :: "sheet \<Rightarrow> vec3 list \<Rightarrow> vec3 list \<Rightarrow> vec3 list \<Rightarrow> vec3 list \<Rightarrow> vec3 list" where
  "grad_i s grad_t grad_c grad_v_srce grad_v_trgt =
    map (\<lambda>v.
      vadd (vadd (vsub (vadd (vscale (1 / 2)
                 (vsub (sum_level srce s grad_t ! v) (sum_level trgt s grad_t ! v)))
                 (sum_level srce s grad_c ! v))
                 (sum_level trgt s grad_c ! v))
                 (sum_level srce s grad_v_srce ! v))
                 (sum_level trgt s grad_v_trgt ! v))
      [0..<length (vert_df s)]"

fun vdiv :: "vec3 \<Rightarrow> real \<Rightarrow> vec3" where
  "vdiv (a, b, c) k = (a / k, b / k, c / k)"

text \<open>\<open>compute_gradient\<close>, lines 129-147. The first parameter is the function that the
  name \<open>length_grad\<close> of line 135 stands for.\<close>

definition compute_gradient :: "(sheet \<Rightarrow> error + vec3 list) \<Rightarrow> sheet \<Rightarrow> bool \<Rightarrow> error + pyval" where
  "compute_gradient length_grad' s components =
    (let norm_factor = nrj_norm_factor s in
     case length_grad' s of
       Inl err \<Rightarrow> Inl err
     | Inr grad_lij \<Rightarrow>
     case tension_grad s grad_lij of
       Inl err \<Rightarrow> Inl err
     | Inr grad_t \<Rightarrow>
     case contractile_grad s grad_lij of
       Inl err \<Rightarrow> Inl err
     | Inr grad_c \<Rightarrow>
     case elastic_grad s of
       Inl err \<Rightarrow> Inl err
     | Inr (grad_v_srce, grad_v_trgt) \<Rightarrow>
       if components then Inr (Tuple [Frame grad_t, Frame grad_c, Frame grad_v_srce, Frame grad_v_trgt])
       else Inr (Frame (map (\<lambda>g. vdiv g norm_factor)
                         (grad_i s grad_t grad_c grad_v_srce grad_v_trgt))))"

section \<open>Topology: \<open>sheet_topology.py\<close>\<close>

text \<open>Modelled from the spec: the Mesh Store's \<open>reset_topo()\<close> is not among the sources.
  The spec has it invalidate or rebuild cached per-face edge orderings and coordinate-delta
  columns. The model keeps no such cache (a face's edges are always found by filtering the
  edge table, and derived columns are recomputed by \<open>update_all\<close>), so the tables are
  returned as they are.\<close>

definition reset_topo :: "sheet \<Rightarrow> sheet" where
  "reset_topo s = s"

text \<open>A record of the module's logger (line 4): the format string and its argument. An
  operation is modelled with the list of the records it logs next to its outcome.\<close>

datatype log_record = Warning string nat

subsection \<open>\<open>type1_transition\<close>\<close>







subsection \<open>\<open>add_vert\<close>\<close>

text \<open>\<open>vert_df.loc[[srce, trgt]].mean()\<close>: the column-wise mean of the two selected rows,
  over every column of the vertex table.\<close>

definition mean_row :: "row \<Rightarrow> row \<Rightarrow> row" where
  "mean_row r1 r2 = (\<lambda>c. (r1 c + r2 c) / 2)"

definition add_vert :: "sheet \<Rightarrow> nat \<Rightarrow> (nat \<times> nat \<times> nat) res" where
  "add_vert s edge =
    (let es = edge_df s; vs = vert_df s in
     if \<not> edge < length es then Raised KeyError s
     else
       let srce0 = srce (es ! edge); trgt0 = trgt (es ! edge) in
       case index0 (mask_index (\<lambda>e. srce e = trgt0 \<and> trgt e = srce0) es) of
         Inl err \<Rightarrow> Raised err s
       | Inr opp_edge \<Rightarrow>
         if \<not> (srce0 < length vs \<and> trgt0 < length vs) then Raised KeyError s
         else
           let new_vert = length vs;
               vs1 = vs @ [mean_row (vs ! srce0) (vs ! trgt0)];
               es1 = es[edge := (es ! edge)\<lparr>trgt := new_vert\<rparr>];
               es2 = es1[opp_edge := (es1 ! opp_edge)\<lparr>srce := new_vert\<rparr>];
               new_edge = length es2;
               es3 = es2 @ [(es2 ! edge)\<lparr>srce := new_vert, trgt := trgt0\<rparr>];
               new_opp_edge = length es3;
               es4 = es3 @ [(es3 ! opp_edge)\<lparr>trgt := new_vert, srce := trgt0\<rparr>]
           in Returned (new_vert, new_edge, new_opp_edge) (s\<lparr>vert_df := vs1, edge_df := es4\<rparr>))"

subsection \<open>\<open>cell_division\<close>\<close>

text \<open>\<open>rot_pos.loc[labels, 'x']\<close>: for each label in turn, the rows of \<open>rot_pos\<close> carrying
  it; KeyError for a label that is not in the index.\<close>

definition loc_x :: "(nat \<times> vec3) list \<Rightarrow> nat list \<Rightarrow> error + real list" where
  "loc_x rot_pos labels =
    (if \<not> list_all (\<lambda>l. l \<in> fst ` set rot_pos) labels then Inl KeyError
     else Inr (concat (map (\<lambda>l. map (\<lambda>p. fst (snd p)) (filter (\<lambda>p. fst p = l) rot_pos)) labels)))"

text \<open>Lines 119-139: the daughter face, the two edges of the division line, the
  reassignment of the daughter's edges, \<open>reset_topo\<close> and \<open>geom.update_all\<close>.\<close>

definition new_face_and_edges ::
  "geom_module \<Rightarrow> sheet \<Rightarrow> nat \<Rightarrow> nat list \<Rightarrow> nat \<Rightarrow> nat \<Rightarrow> nat \<Rightarrow> unit res" where
  "new_face_and_edges geom s mother negative vert_a vert_b new_edge_b =
    (let daughter = length (face_df s);
         fs1 = face_df s @ [face_df s ! mother];
         es = edge_df s
     in
     if \<not> new_edge_b < length es then Raised KeyError (s\<lparr>face_df := fs1\<rparr>)
     else
       let edge_cols = es ! new_edge_b;
           new_edge_m = length es;
           es1 = es @ [edge_cols\<lparr>srce := vert_b, trgt := vert_a\<rparr>];
           new_edge_d = length es1;
           es2 = es1 @ [edge_cols\<lparr>srce := vert_a, trgt := vert_b\<rparr>];
           daughter_edges = negative @ [new_edge_b, new_edge_d];
           es3 = mapi (\<lambda>i e. if i \<in> set daughter_edges then e\<lparr>face := daughter\<rparr> else e) es2;
           s1 = reset_topo (s\<lparr>face_df := fs1, edge_df := es3\<rparr>)
       in
       case updates geom ''update_all'' of
         None \<Rightarrow> Raised AttributeError s1
       | Some upd \<Rightarrow> upd s1)"

text \<open>Lines 105-117: the edges of the mother, their projected end points, the two edges
  that cross the division line and the two vertices added on them. Assigning
  \<open>m_data.index\<close> to a selection of another length raises ValueError.\<close>

definition divide :: "geom_module \<Rightarrow> sheet \<Rightarrow> nat \<Rightarrow> (nat \<times> vec3) list \<Rightarrow> unit res" where
  "divide geom s mother rot_pos =
    (let es = edge_df s; m_data = mask_index (\<lambda>e. face e = mother) es in
     case loc_x rot_pos (map (\<lambda>i. srce (es ! i)) m_data) of
       Inl err \<Rightarrow> Raised err s
     | Inr srce_pos \<Rightarrow>
       if length srce_pos \<noteq> length m_data then Raised ValueError s
       else
       case loc_x rot_pos (map (\<lambda>i. trgt (es ! i)) m_data) of
         Inl err \<Rightarrow> Raised err s
       | Inr trgt_pos \<Rightarrow>
         if length trgt_pos \<noteq> length m_data then Raised ValueError s
         else
         let rows = zip m_data (zip srce_pos trgt_pos) in
         case index0 (map fst (filter (\<lambda>(i, sp, tp). sp < 0 \<and> tp > 0) rows)) of
           Inl err \<Rightarrow> Raised err s
         | Inr edge_a \<Rightarrow>
         case index0 (map fst (filter (\<lambda>(i, sp, tp). sp > 0 \<and> tp < 0) rows)) of
           Inl err \<Rightarrow> Raised err s
         | Inr edge_b \<Rightarrow>
         case add_vert s edge_a of
           Raised err s1 \<Rightarrow> Raised err s1
         | Returned (vert_a, new_edge_a, new_opp_edge_a) s1 \<Rightarrow>
         case add_vert s1 edge_b of
           Raised err s2 \<Rightarrow> Raised err s2
         | Returned (vert_b, new_edge_b, new_opp_edge_b) s2 \<Rightarrow>
           new_face_and_edges geom s2 mother
             (map fst (filter (\<lambda>(i, sp, tp). sp < 0) rows)) vert_a vert_b new_edge_b)"

text \<open>\<open>cell_division\<close>, lines 96-139. \<open>not is_alive\<close> holds for the number 0 (and for
  \<open>False\<close>). \<open>rnd\<close> is the value \<open>np.random.random()\<close> returns when no angle is given. The
  second component is what was logged.\<close>

definition cell_division ::
  "geom_module \<Rightarrow> sheet \<Rightarrow> nat \<Rightarrow> real option \<Rightarrow> real \<Rightarrow> unit res \<times> log_record list" where
  "cell_division geom s mother angle rnd =
    (if \<not> mother < length (face_df s) then (Raised KeyError s, [])
     else if (face_df s ! mother) ''is_alive'' = 0 then
       (Returned () s, [Warning ''Cell {} is not alive and cannot devide'' mother])
     else
       let psi = (case angle of None \<Rightarrow> rnd * pi | Some a \<Rightarrow> a) in
       case projections geom ''face_proedgected_pos'' of
         None \<Rightarrow> (Raised AttributeError s, [])
       | Some proj \<Rightarrow>
         (case proj s mother psi of
            Inl err \<Rightarrow> (Raised err s, [])
          | Inr rot_pos \<Rightarrow> (divide geom s mother rot_pos, [])))"

section \<open>Closed faces\<close>









section \<open>Example meshes\<close>

text \<open>A row given by its non-zero columns.\<close>

definition row_of :: "(string \<times> real) list \<Rightarrow> row" where
  "row_of kvs = (\<lambda>c. case map_of kvs c of Some v \<Rightarrow> v | None \<Rightarrow> 0)"

definition mk_edge :: "nat \<Rightarrow> nat \<Rightarrow> nat \<Rightarrow> edge_row" where
  "mk_edge a b f = \<lparr>srce = a, trgt = b, face = f,
                    ecols = row_of [(''line_tension'', 2), (''length'', 1)]\<rparr>"

definition mk_vert :: "real \<Rightarrow> real \<Rightarrow> row" where
  "mk_vert a b = row_of [(''x'', a), (''y'', b), (''z'', 1), (''basal_shift'', 0)]"

definition mk_face :: "real \<Rightarrow> row" where
  "mk_face alive = row_of [(''is_alive'', alive), (''contractility'', 1), (''vol_elasticity'', 1),
     (''prefered_vol'', 1), (''perimeter'', 4), (''vol'', 3)]"

text \<open>Four faces around the edge from vertex 0 to vertex 1: two quadrilaterals (faces 0
  and 1) on either side of it, and a triangle at each of its ends (face 2 at vertex 0,
  face 3, which is dead, at vertex 1). The outer edges are on the boundary of the mesh and
  have no opposite.\<close>

definition patch :: sheet where
  "patch = \<lparr>vert_df = [mk_vert 0 0, mk_vert 2 0, mk_vert (-2) 0, mk_vert 3 2,
                        mk_vert 4 0, mk_vert (-1) (-2), mk_vert 0 2, mk_vert 2 (-2)],
            edge_df = [mk_edge 0 1 0, mk_edge 1 3 0, mk_edge 3 6 0, mk_edge 6 0 0,
                       mk_edge 1 0 1, mk_edge 0 5 1, mk_edge 5 7 1, mk_edge 7 1 1,
                       mk_edge 5 0 2, mk_edge 0 2 2, mk_edge 2 5 2,
                       mk_edge 3 1 3, mk_edge 1 4 3, mk_edge 4 3 3],
            face_df = [mk_face 1, mk_face 1, mk_face 1, mk_face 0],
            geometry = ''flat'', height_axis = ''z'', ab = (0, 0),
            nrj_norm_factor = 2, grad_norm_factor = 4\<rparr>"


text \<open>A single live triangular face with the vertices (0, 0, 1), (4, 0, 1) and (0, 3, 1)
  in flat mode, with the derived columns as \<open>update_all\<close> leaves them: edge lengths 4, 5
  and 3, centroid (4/3, 1, 1), every edge normal (0, 0, 4) and sub-area 2, area 6,
  perimeter 12, heights 1, volume 6.\<close>

definition tri_vert :: "real \<Rightarrow> real \<Rightarrow> row" where
  "tri_vert a b = row_of [(''x'', a), (''y'', b), (''z'', 1), (''rho'', 1), (''height'', 1)]"

definition tri_edge :: "nat \<Rightarrow> nat \<Rightarrow> real \<Rightarrow> real \<Rightarrow> real \<Rightarrow> edge_row" where
  "tri_edge a b dx dy l = \<lparr>srce = a, trgt = b, face = 0,
     ecols = row_of [(''line_tension'', 2), (''dx'', dx), (''dy'', dy), (''length'', l),
                     (''nz'', 4), (''sub_area'', 2), (''sub_vol'', 2)]\<rparr>"

definition triangle :: sheet where
  "triangle = \<lparr>vert_df = [tri_vert 0 0, tri_vert 4 0, tri_vert 0 3],
               edge_df = [tri_edge 0 1 4 0 4, tri_edge 1 2 (-4) 3 5, tri_edge 2 0 0 (-3) 3],
               face_df = [row_of [(''is_alive'', 1), (''contractility'', 1), (''vol_elasticity'', 1),
                                  (''prefered_vol'', 5), (''perimeter'', 12), (''vol'', 6),
                                  (''area'', 6), (''x'', 4 / 3), (''y'', 1), (''z'', 1),
                                  (''height'', 1), (''rho'', 1)]],
               geometry = ''flat'', height_axis = ''z'', ab = (0, 0),
               nrj_norm_factor = 2, grad_norm_factor = 4\<rparr>"

text \<open>A stand-in for the numerical library: every decomposition and rotation is the
  identity matrix.\<close>

definition unit_numerics :: numerics where
  "unit_numerics =
    \<lparr>svd_vt = (\<lambda>m. ((1, 0, 0), (0, 1, 0), (0, 0, 1))),
     rotation_matrix = (\<lambda>psi axis. ((1, 0, 0), (0, 1, 0), (0, 0, 1)))\<rparr>"

section \<open>Selections\<close>

lemma index0_mask_Inr:
  "index0 (mask_index P xs) = Inr i \<Longrightarrow> i < length xs \<and> P (xs ! i)"
proof -
  assume h: "index0 (mask_index P xs) = Inr i"
  then have "i \<in> set (mask_index P xs)"
    by (auto simp: index0_def split: list.splits)
  then show ?thesis by (auto simp: mask_index_def)
qed

lemma index0_mask_Inl:
  "index0 (mask_index P xs) = Inl err \<Longrightarrow> err = IndexError \<and> mask_index P xs = []"
  by (auto simp: index0_def split: list.splits)

section \<open>Division of a dead face\<close>

text \<open>C8. For every mesh and every face of it whose \<open>is_alive\<close> flag is false,
  \<open>cell_division\<close> logs one warning and returns with the mesh exactly as it was: all three
  tables, hence the vertex, edge and face counts and every attribute column, are
  unchanged.\<close>

theorem cell_division_dead_face:
  assumes "mother < length (face_df s)" and "(face_df s ! mother) ''is_alive'' = 0"
  shows "cell_division geom s mother angle rnd =
           (Returned () s, [Warning ''Cell {} is not alive and cannot devide'' mother])"
  using assms by (simp add: cell_division_def)

theorem cell_division_dead_face_witness:
  "3 < length (face_df patch) \<and> (face_df patch ! 3) ''is_alive'' = 0 \<and>
   cell_division (SheetGeometry unit_numerics) patch 3 None (1 / 2) =
     (Returned () patch, [Warning ''Cell {} is not alive and cannot devide'' 3])"
proof -
  have h1: "3 < length (face_df patch)" by (simp add: patch_def)
  have h2: "(face_df patch ! 3) ''is_alive'' = 0"
    by (simp add: patch_def mk_face_def row_of_def)
  show ?thesis using h1 h2 cell_division_dead_face [OF h1 h2] by simp
qed

section \<open>Rows created by \<open>add_vert\<close>\<close>

text \<open>C10. For every edge that has an opposite edge (and whose end points are rows of the
  vertex table), \<open>add_vert\<close> returns the labels of one new vertex row and two new edge
  rows. The new vertex row is the mean of the two end-point rows in every column. The first
  new edge row has the face and every attribute column of the split edge, the second those
  of the opposite edge; only their source and target differ: from the new vertex to the
  old target, and from the old target to the new vertex.\<close>

theorem add_vert_rows:
  assumes e: "edge < length (edge_df s)"
    and opp: "index0 (mask_index (\<lambda>e. srce e = trgt (edge_df s ! edge) \<and> trgt e = srce (edge_df s ! edge))
                (edge_df s)) = Inr opp_edge"
    and vs: "srce (edge_df s ! edge) < length (vert_df s)" "trgt (edge_df s ! edge) < length (vert_df s)"
  shows "\<exists>s'. add_vert s edge =
            Returned (length (vert_df s), length (edge_df s), Suc (length (edge_df s))) s'
          \<and> length (vert_df s') = Suc (length (vert_df s))
          \<and> length (edge_df s') = Suc (Suc (length (edge_df s)))
          \<and> (\<forall>c. (vert_df s' ! length (vert_df s)) c =
                  ((vert_df s ! srce (edge_df s ! edge)) c + (vert_df s ! trgt (edge_df s ! edge)) c) / 2)
          \<and> face (edge_df s' ! length (edge_df s)) = face (edge_df s ! edge)
          \<and> ecols (edge_df s' ! length (edge_df s)) = ecols (edge_df s ! edge)
          \<and> srce (edge_df s' ! length (edge_df s)) = length (vert_df s)
          \<and> trgt (edge_df s' ! length (edge_df s)) = trgt (edge_df s ! edge)
          \<and> face (edge_df s' ! Suc (length (edge_df s))) = face (edge_df s ! opp_edge)
          \<and> ecols (edge_df s' ! Suc (length (edge_df s))) = ecols (edge_df s ! opp_edge)
          \<and> srce (edge_df s' ! Suc (length (edge_df s))) = trgt (edge_df s ! edge)
          \<and> trgt (edge_df s' ! Suc (length (edge_df s))) = length (vert_df s)"
proof -
  from index0_mask_Inr [OF opp] have o: "opp_edge < length (edge_df s)" by simp
  show ?thesis
    using e o vs opp
    by (cases "opp_edge = edge")
       (simp_all add: add_vert_def Let_def nth_append mean_row_def)
qed

lemma patch_edge0:
  "edge_df patch ! 0 = mk_edge 0 1 0" "length (edge_df patch) = 14" "length (vert_df patch) = 8"
  by (simp_all add: patch_def)

lemma patch_opposite0:
  "index0 (mask_index (\<lambda>e. srce e = 1 \<and> trgt e = 0) (edge_df patch)) = Inr 4"
  by (simp add: index0_def mask_index_def patch_def mk_edge_def upt_rec)

theorem add_vert_rows_witness:
  "0 < length (edge_df patch)
   \<and> index0 (mask_index (\<lambda>e. srce e = trgt (edge_df patch ! 0) \<and> trgt e = srce (edge_df patch ! 0))
        (edge_df patch)) = Inr 4
   \<and> srce (edge_df patch ! 0) < length (vert_df patch)
   \<and> trgt (edge_df patch ! 0) < length (vert_df patch)
   \<and> (\<exists>s'. add_vert patch 0 = Returned (8, 14, 15) s'
        \<and> (vert_df s' ! 8) ''x'' = 1
        \<and> face (edge_df s' ! 14) = 0 \<and> ecols (edge_df s' ! 14) ''line_tension'' = 2
        \<and> face (edge_df s' ! 15) = 1 \<and> ecols (edge_df s' ! 15) ''line_tension'' = 2)"
proof -
  have h1: "0 < length (edge_df patch)" by (simp add: patch_edge0)
  have h2: "index0 (mask_index (\<lambda>e. srce e = trgt (edge_df patch ! 0) \<and> trgt e = srce (edge_df patch ! 0))
        (edge_df patch)) = Inr 4"
    using patch_opposite0 by (simp add: patch_edge0 mk_edge_def)
  have h3: "srce (edge_df patch ! 0) < length (vert_df patch)"
    by (simp add: patch_edge0 mk_edge_def)
  have h4: "trgt (edge_df patch ! 0) < length (vert_df patch)"
    by (simp add: patch_edge0 mk_edge_def)
  have v: "(vert_df patch ! 0) ''x'' = 0" "(vert_df patch ! 1) ''x'' = 2"
    "edge_df patch ! 4 = mk_edge 1 0 1"
    by (simp_all add: patch_def mk_vert_def row_of_def)
  from add_vert_rows [OF h1 h2 h3 h4] obtain s' where
    "add_vert patch 0 = Returned (length (vert_df patch), length (edge_df patch),
        Suc (length (edge_df patch))) s'"
    "(vert_df s' ! length (vert_df patch)) ''x'' =
        ((vert_df patch ! srce (edge_df patch ! 0)) ''x''
         + (vert_df patch ! trgt (edge_df patch ! 0)) ''x'') / 2"
    "face (edge_df s' ! length (edge_df patch)) = face (edge_df patch ! 0)"
    "ecols (edge_df s' ! length (edge_df patch)) = ecols (edge_df patch ! 0)"
    "face (edge_df s' ! Suc (length (edge_df patch))) = face (edge_df patch ! 4)"
    "ecols (edge_df s' ! Suc (length (edge_df patch))) = ecols (edge_df patch ! 4)"
    by blast
  then have "add_vert patch 0 = Returned (8, 14, 15) s'
        \<and> (vert_df s' ! 8) ''x'' = 1
        \<and> face (edge_df s' ! 14) = 0 \<and> ecols (edge_df s' ! 14) ''line_tension'' = 2
        \<and> face (edge_df s' ! 15) = 1 \<and> ecols (edge_df s' ! 15) ''line_tension'' = 2"
    using v by (simp add: patch_edge0 mk_edge_def row_of_def)
  then show ?thesis using h1 h2 h3 h4 by blast
qed

section \<open>Balance of a face under row assignments\<close>












section \<open>Balanced faces have a zero displacement sum\<close>






section \<open>\<open>type1_transition\<close> on an inner edge\<close>
















section \<open>The lookups of \<open>type1_transition\<close>\<close>









section \<open>Energy\<close>

lemma map_mask_index:
  "map (\<lambda>i. g (xs ! i)) (mask_index P xs) = map g (filter P xs)"
proof -
  have "map g (filter P xs) = map g (filter P (map (\<lambda>i. xs ! i) [0..<length xs]))"
    by (simp add: map_nth)
  also have "\<dots> = map (\<lambda>i. g (xs ! i)) (mask_index P xs)"
    by (simp add: mask_index_def filter_map comp_def)
  finally show ?thesis by simp
qed

lemma series_sum_div:
  "series_sum (series_div xs k) = series_sum xs / k"
  by (induction xs) (auto simp: series_sum_def series_div_def add_divide_distrib)

lemma series_sum_add:
  "series_sum (series_add (map (\<lambda>i. (i, g i)) is) (map (\<lambda>i. (i, h i)) is))
     = series_sum (map (\<lambda>i. (i, g i)) is) + series_sum (map (\<lambda>i. (i, h i)) is)"
  by (induction "is") (simp_all add: series_sum_def series_add_def)

lemma sum_E_t: "series_sum (E_t s) = spec_tension_energy s"
  using map_mask_index [of "\<lambda>e. ecols e ''line_tension'' * ecols e ''length'' / 2" "edge_df s"
      "live_edge s"]
  by (simp add: series_sum_def E_t_def spec_tension_energy_def comp_def live_edge_def [abs_def])

lemma sum_E_c: "series_sum (E_c s) = spec_contractile_energy s"
  using map_mask_index [of "\<lambda>r. 0.5 * r ''contractility'' * (r ''perimeter'')\<^sup>2" "face_df s" live_face]
  by (simp add: series_sum_def E_c_def spec_contractile_energy_def comp_def live_face_def [abs_def])

lemma sum_E_v: "series_sum (E_v s) = spec_volume_energy s"
  using map_mask_index [of elastic_energy "face_df s" live_face]
  by (simp add: series_sum_def E_v_def spec_volume_energy_def comp_def live_face_def [abs_def]
      elastic_energy_def [abs_def])

lemma sum_E_cv: "series_sum (series_add (E_c s) (E_v s)) = spec_contractile_energy s + spec_volume_energy s"
  unfolding sum_E_c [symmetric] sum_E_v [symmetric]
  unfolding E_c_def E_v_def by (rule series_sum_add)

text \<open>C2. For every mesh whose edges refer to rows of the face table: without
  \<open>full_output\<close>, \<open>compute_energy\<close> returns the sum over the edges of live faces of
  line tension times length over two, plus the sums over the live faces of half the
  contractility times the squared perimeter and of half the volume elasticity times the
  squared difference of volume and preferred volume, the total divided by
  \<open>nrj_norm_factor\<close>. With \<open>full_output\<close> it yields three Series, in the order tension,
  contractility, volume elasticity: one entry per edge of a live face, respectively one
  entry per live face, each divided by the factor. The entries of each Series add up to
  the corresponding component sum divided by the factor.\<close>

theorem compute_energy_formula:
  assumes "faces_ok s"
  shows "compute_energy s False =
           Inr (Float ((spec_tension_energy s + (spec_contractile_energy s + spec_volume_energy s))
                       / nrj_norm_factor s))
       \<and> (\<exists>t c v. compute_energy s True = Inr (Generator [Series t, Series c, Series v])
            \<and> map fst t = mask_index (live_edge s) (edge_df s)
            \<and> map fst c = mask_index live_face (face_df s)
            \<and> map fst v = mask_index live_face (face_df s)
            \<and> series_sum t = spec_tension_energy s / nrj_norm_factor s
            \<and> series_sum c = spec_contractile_energy s / nrj_norm_factor s
            \<and> series_sum v = spec_volume_energy s / nrj_norm_factor s)"
proof -
  have a: "compute_energy s False =
           Inr (Float ((spec_tension_energy s + (spec_contractile_energy s + spec_volume_energy s))
                       / nrj_norm_factor s))"
    using assms by (simp add: compute_energy_def sum_E_t sum_E_cv)
  have b: "compute_energy s True = Inr (Generator [Series (series_div (E_t s) (nrj_norm_factor s)),
      Series (series_div (E_c s) (nrj_norm_factor s)), Series (series_div (E_v s) (nrj_norm_factor s))])"
    using assms by (simp add: compute_energy_def)
  have i: "map fst (series_div (E_t s) (nrj_norm_factor s)) = mask_index (live_edge s) (edge_df s)"
    "map fst (series_div (E_c s) (nrj_norm_factor s)) = mask_index live_face (face_df s)"
    "map fst (series_div (E_v s) (nrj_norm_factor s)) = mask_index live_face (face_df s)"
    by (simp_all add: series_div_def E_t_def E_c_def E_v_def comp_def
        live_edge_def [abs_def] live_face_def [abs_def])
  show ?thesis
    using a b i by (simp add: series_sum_div sum_E_t sum_E_c sum_E_v)
qed

lemma triangle_ok: "faces_ok triangle" "verts_ok triangle"
  by (simp_all add: faces_ok_def verts_ok_def triangle_def tri_edge_def)

lemma triangle_energy_components:
  "compute_energy triangle True =
     Inr (Generator [Series [(0, 2), (1, 5 / 2), (2, 3 / 2)], Series [(0, 36)], Series [(0, 1 / 4)]])"
proof -
  have e: "E_t triangle = [(0, 4), (1, 5), (2, 3)]" "E_c triangle = [(0, 72)]"
    "E_v triangle = [(0, 1 / 2)]" "nrj_norm_factor triangle = 2"
    by (simp_all add: E_t_def E_c_def E_v_def mask_index_def elastic_energy_def triangle_def
        tri_edge_def row_of_def upt_rec)
  show ?thesis
    by (simp add: compute_energy_def triangle_ok e series_div_def)
qed

theorem compute_energy_formula_witness:
  "faces_ok triangle
   \<and> compute_energy triangle False = Inr (Float (169 / 4))
   \<and> spec_tension_energy triangle = 12
   \<and> spec_contractile_energy triangle = 72
   \<and> spec_volume_energy triangle = 1 / 2"
proof -
  have v: "spec_tension_energy triangle = 12" "spec_contractile_energy triangle = 72"
    "spec_volume_energy triangle = 1 / 2" "nrj_norm_factor triangle = 2"
    by (simp_all add: spec_tension_energy_def spec_contractile_energy_def spec_volume_energy_def
        live_edge_def live_face_def triangle_def tri_edge_def row_of_def)
  show ?thesis
    using compute_energy_formula [OF triangle_ok(1)] triangle_ok(1) v by simp
qed

text \<open>On the triangle the first component that \<open>full_output\<close> yields is a Series of
  three entries, one per edge, not the number 6 they add up to.\<close>

theorem compute_energy_full_output_series:
  "compute_energy triangle True =
     Inr (Generator [Series [(0, 2), (1, 5 / 2), (2, 3 / 2)], Series [(0, 36)], Series [(0, 1 / 4)]])
   \<and> compute_energy triangle True \<noteq> Inr (Tuple [Float 6, Float 36, Float (1 / 4)])"
  by (simp add: triangle_energy_components)

section \<open>The calls of \<open>compute_gradient\<close>\<close>

lemma triangle_rows:
  "vert_df triangle = [tri_vert 0 0, tri_vert 4 0, tri_vert 0 3]"
  "edge_df triangle = [tri_edge 0 1 4 0 4, tri_edge 1 2 (-4) 3 5, tri_edge 2 0 0 (-3) 3]"
  "length (face_df triangle) = 1"
  "geometry triangle = ''flat''" "height_axis triangle = ''z''"
  "nrj_norm_factor triangle = 2" "grad_norm_factor triangle = 4"
  by (simp_all add: triangle_def)

lemma triangle_face:
  "(face_df triangle ! 0) ''is_alive'' = 1" "(face_df triangle ! 0) ''contractility'' = 1"
  "(face_df triangle ! 0) ''perimeter'' = 12" "(face_df triangle ! 0) ''vol_elasticity'' = 1"
  "(face_df triangle ! 0) ''vol'' = 6" "(face_df triangle ! 0) ''prefered_vol'' = 5"
  "(face_df triangle ! 0) ''x'' = 4 / 3" "(face_df triangle ! 0) ''y'' = 1"
  "(face_df triangle ! 0) ''z'' = 1"
  by (simp_all add: triangle_def row_of_def)

lemma triangle_length_grad:
  "length_grad triangle = Inr [(- 1, 0, 0), (4 / 5, - (3 / 5), 0), (0, 1, 0)]"
  by (simp add: length_grad_def triangle_rows tri_edge_def row_of_def get_d_def)

lemma elastic_grad_raises:
  "elastic_grad s = Inl (if faces_ok s \<and> verts_ok s then TypeError else KeyError)"
  by (simp add: elastic_grad_def call1_def)

lemma compute_gradient_raises:
  assumes "faces_ok s" and "verts_ok s" and "lg s = Inr g"
  shows "compute_gradient lg s components = Inl TypeError"
  using assms
  by (simp add: compute_gradient_def elastic_grad_raises tension_grad_def contractile_grad_def)

text \<open>C6. For every mesh, whatever the imported \<open>length_grad\<close> does, and with or without
  \<open>components\<close>, \<open>compute_gradient\<close> returns no value. When the edges refer to rows of the
  vertex and face tables and \<open>length_grad\<close> returns, the call raises the TypeError of
  line 187, reached from line 139, where \<open>area_grad\<close> is called with two arguments: this
  is before the division of line 147, for which line 133 has read \<open>nrj_norm_factor\<close>.\<close>

theorem compute_gradient_no_result:
  "compute_gradient lg s components \<noteq> Inr v
   \<and> (faces_ok s \<and> verts_ok s \<and> lg s = Inr g \<longrightarrow>
        compute_gradient lg s components = Inl TypeError)"
proof -
  have "compute_gradient lg s components \<noteq> Inr v"
    by (simp add: compute_gradient_def elastic_grad_raises Let_def split: sum.splits)
  then show ?thesis
    using compute_gradient_raises [of s lg g components] by simp
qed

theorem compute_gradient_no_result_witness:
  "faces_ok triangle \<and> verts_ok triangle
   \<and> length_grad triangle = Inr [(- 1, 0, 0), (4 / 5, - (3 / 5), 0), (0, 1, 0)]
   \<and> compute_gradient length_grad triangle True = Inl TypeError
   \<and> compute_gradient length_grad (triangle\<lparr>grad_norm_factor := 8\<rparr>) False \<noteq>
       Inr (Frame [(- (29 / 16), - (15 / 8), 1 / 4), (249 / 80, - (39 / 40), 1 / 4),
                   (- (13 / 10), 57 / 20, 1 / 4)])"
  using compute_gradient_no_result [of length_grad triangle True _
      "[(- 1, 0, 0), (4 / 5, - (3 / 5), 0), (0, 1, 0)]"]
    compute_gradient_no_result [of length_grad "triangle\<lparr>grad_norm_factor := 8\<rparr>" False
      "Frame [(- (29 / 16), - (15 / 8), 1 / 4), (249 / 80, - (39 / 40), 1 / 4),
              (- (13 / 10), 57 / 20, 1 / 4)]"]
    triangle_ok triangle_length_grad
  by simp

section \<open>Height gradient and geometry mode\<close>

lemma triangle_x_heights:
  "map (\<lambda>r. r ''height'') (vert_df (mesh (update_height (triangle\<lparr>height_axis := ''x''\<rparr>)))) = [0, 4, 0]"
  by (simp add: update_height_def rho_of_def coords_def verts_ok_def Let_def triangle_rows
      tri_edge_def tri_vert_def row_of_def)

lemma triangle_rod_heights:
  "map (\<lambda>r. r ''height'') (vert_df (mesh (update_height (triangle\<lparr>geometry := ''rod''\<rparr>)))) = [0, 4, 3]"
  by (simp add: update_height_def rho_of_def coords_def verts_ok_def Let_def triangle_rows
      tri_edge_def tri_vert_def row_of_def)

text \<open>C3. On the triangle in rod mode \<open>height_grad\<close> has no value: its \<open>return\<close>
  raises UnboundLocalError, while \<open>update_height\<close> gives the vertices the heights 0, 4
  and 3. In flat mode with the height axis x, \<open>height_grad\<close> gives every vertex the unit
  vector along z, while \<open>update_height\<close> takes the heights 0, 4 and 0 from the x
  coordinate.\<close>

theorem height_grad_rod_and_axis:
  "height_grad (triangle\<lparr>geometry := ''rod''\<rparr>) = Inl UnboundLocalError
   \<and> map (\<lambda>r. r ''height'') (vert_df (mesh (update_height (triangle\<lparr>geometry := ''rod''\<rparr>)))) = [0, 4, 3]
   \<and> height_grad (triangle\<lparr>height_axis := ''x''\<rparr>) = Inr [(0, 0, 1), (0, 0, 1), (0, 0, 1)]
   \<and> map (\<lambda>r. r ''height'') (vert_df (mesh (update_height (triangle\<lparr>height_axis := ''x''\<rparr>)))) = [0, 4, 0]"
  by (simp add: triangle_x_heights triangle_rod_heights height_grad_def triangle_rows)

section \<open>Energy and gradient on the same mesh\<close>

lemma triangle_energy:
  "compute_energy triangle False = Inr (Float (169 / 4))"
proof -
  have e: "E_t triangle = [(0, 4), (1, 5), (2, 3)]" "E_c triangle = [(0, 72)]"
    "E_v triangle = [(0, 1 / 2)]" "nrj_norm_factor triangle = 2"
    by (simp_all add: E_t_def E_c_def E_v_def mask_index_def elastic_energy_def triangle_def
        tri_edge_def row_of_def upt_rec)
  show ?thesis
    by (simp add: compute_energy_def triangle_ok e series_sum_def series_add_def)
qed

lemma triangle_mode_ok:
  "faces_ok (triangle\<lparr>geometry := m\<rparr>)" "verts_ok (triangle\<lparr>geometry := m\<rparr>)"
  using triangle_ok by (simp_all add: faces_ok_def verts_ok_def)

lemma length_grad_mode:
  "length_grad (triangle\<lparr>geometry := m\<rparr>) = Inr [(- 1, 0, 0), (4 / 5, - (3 / 5), 0), (0, 1, 0)]"
  using triangle_length_grad by (simp add: length_grad_def)

text \<open>C1. On the triangle, in flat mode as in cylindrical, spherical and rod mode,
  \<open>compute_energy\<close> returns 169/4 and \<open>compute_gradient\<close> raises TypeError at the call
  \<open>area_grad(sheet, coords)\<close> of line 187: there is no gradient to compare with the
  derivative of the energy.\<close>

theorem compute_gradient_type_error:
  "compute_energy triangle False = Inr (Float (169 / 4))
   \<and> compute_gradient length_grad triangle False = Inl TypeError
   \<and> compute_gradient length_grad (triangle\<lparr>geometry := ''cylindrical''\<rparr>) False = Inl TypeError
   \<and> compute_gradient length_grad (triangle\<lparr>geometry := ''spherical''\<rparr>) False = Inl TypeError
   \<and> compute_gradient length_grad (triangle\<lparr>geometry := ''rod''\<rparr>) False = Inl TypeError"
proof -
  have "compute_gradient length_grad (triangle\<lparr>geometry := m\<rparr>) False = Inl TypeError" for m
    using triangle_mode_ok [of m] length_grad_mode [of m]
    by (intro compute_gradient_raises) simp_all
  then show ?thesis
    using compute_gradient_raises [of triangle length_grad _ False] triangle_ok
      triangle_length_grad triangle_energy
    by simp
qed

section \<open>Division of a live face\<close>

text \<open>C5. For every mesh and every face of it that is alive, \<open>cell_division\<close> with the
  \<open>SheetGeometry\<close> class raises AttributeError at \<open>geom.face_proedgected_pos\<close>, a name
  that \<open>SheetGeometry\<close> does not define (its method is \<open>face_projected_pos\<close>). This is
  before the first assignment: the mesh is as it was, no face and no vertex is added, and
  nothing is logged.\<close>

theorem cell_division_live_face_raises:
  assumes "mother < length (face_df s)" and "(face_df s ! mother) ''is_alive'' \<noteq> 0"
  shows "cell_division (SheetGeometry np) s mother angle rnd = (Raised AttributeError s, [])"
  using assms by (simp add: cell_division_def SheetGeometry_def Let_def)

theorem cell_division_live_face_raises_witness:
  "0 < length (face_df triangle) \<and> (face_df triangle ! 0) ''is_alive'' \<noteq> 0
   \<and> cell_division (SheetGeometry unit_numerics) triangle 0 (Some 0) (1 / 2) =
       (Raised AttributeError triangle, [])"
proof -
  have h1: "0 < length (face_df triangle)" by (simp add: triangle_rows)
  have h2: "(face_df triangle ! 0) ''is_alive'' \<noteq> 0" by (simp add: triangle_face)
  show ?thesis using h1 h2 cell_division_live_face_raises [OF h1 h2] by simp
qed

end
